theory Spec2Isabelle
  imports Main
begin

section \<open>RepoGPT: the crawler and the tree-sitter outline builder\<close>

text \<open>
  A shallow embedding of \<^verbatim>\<open>repogpt/crawler.py\<close> and
  \<^verbatim>\<open>repogpt/parsers/treesitter_parser.py\<close>. A Python \<^verbatim>\<open>str\<close> is a
  \<^typ>\<open>string\<close>: one list element per character, so that list positions are the
  indices Python slices with. Exceptions are values of \<open>exn\<close>; a function that can
  raise returns \<open>exn + 'a\<close>. What the code obtains from the file system and from the
  libraries it calls (langchain, tree-sitter) is a field of the record \<open>env\<close>.
\<close>

subsection \<open>Python strings and paths\<close>

datatype exn =
    ValueError string
  | KeyError string
  | IndexError
  | TypeError
  | OSError string
  | UnicodeDecodeError string
  | ParserError string
  | SplitterError string

text \<open>\<^verbatim>\<open>s.count(c)\<close> for a one-character \<^verbatim>\<open>c\<close>.\<close>

definition str_count :: "char \<Rightarrow> string \<Rightarrow> int" where
  "str_count c s = int (length (filter (\<lambda>x. x = c) s))"

text \<open>\<^verbatim>\<open>s[:stop]\<close>: a negative \<^verbatim>\<open>stop\<close> counts from the end, and both ends are clamped.\<close>

definition py_prefix :: "string \<Rightarrow> int \<Rightarrow> string" where
  "py_prefix s stop =
     (if stop < 0 then take (nat (int (length s) + stop)) s else take (nat stop) s)"

text \<open>\<^verbatim>\<open>s[i:j]\<close> for two indices that are not negative.\<close>

definition py_slice :: "string \<Rightarrow> nat \<Rightarrow> nat \<Rightarrow> string" where
  "py_slice s i j = take (j - i) (drop i s)"

text \<open>\<^verbatim>\<open>s.split(sep)\<close> for a one-character separator.\<close>

fun str_split :: "char \<Rightarrow> string \<Rightarrow> string list" where
  "str_split sep [] = [[]]"
| "str_split sep (c # cs) =
     (if c = sep then [] # str_split sep cs
      else (case str_split sep cs of
              [] \<Rightarrow> [[c]]
            | w # ws \<Rightarrow> (c # w) # ws))"

text \<open>\<^verbatim>\<open>str(n)\<close> of an int, which is what an f-string writes for it.\<close>

definition digit_char :: "nat \<Rightarrow> char" where
  "digit_char d = ''0123456789'' ! d"

function str_nat :: "nat \<Rightarrow> string" where
  "str_nat n = (if n < 10 then [digit_char n] else str_nat (n div 10) @ [digit_char (n mod 10)])"
  by pat_completeness auto
termination
  by (relation "measure (\<lambda>n. n)") auto

definition str_int :: "int \<Rightarrow> string" where
  "str_int i = (if i < 0 then CHR ''-'' # str_nat (nat (- i)) else str_nat (nat i))"

text \<open>\<^verbatim>\<open>os.path.join(a, b)\<close> of posixpath, for two arguments.\<close>

definition path_join :: "string \<Rightarrow> string \<Rightarrow> string" where
  "path_join a b =
     (if b \<noteq> [] \<and> hd b = CHR ''/'' then b
      else if a = [] \<or> last a = CHR ''/'' then a @ b
      else a @ ''/'' @ b)"

text \<open>
  \<^verbatim>\<open>fnmatch.fnmatch(name, pat)\<close> on a POSIX system (where \<^verbatim>\<open>normcase\<close> changes nothing),
  for patterns made of literal characters, \<^verbatim>\<open>*\<close> and \<^verbatim>\<open>?\<close>; the crawler's only
  pattern is \<^verbatim>\<open>.*\<close>.
\<close>

fun fnmatch :: "string \<Rightarrow> string \<Rightarrow> bool" where
  "fnmatch [] [] = True"
| "fnmatch [] (p # ps) = (p = CHR ''*'' \<and> fnmatch [] ps)"
| "fnmatch (c # cs) [] = False"
| "fnmatch (c # cs) (p # ps) =
     (if p = CHR ''*'' then fnmatch (c # cs) ps \<or> fnmatch cs (p # ps)
      else if p = CHR ''?'' then fnmatch cs ps
      else p = c \<and> fnmatch cs ps)"

text \<open>
  \<^verbatim>\<open>s.rfind(c)\<close>: the last index of \<^verbatim>\<open>c\<close>, or \<open>-1\<close>.
\<close>

fun rfind_from :: "char \<Rightarrow> string \<Rightarrow> int \<Rightarrow> int \<Rightarrow> int" where
  "rfind_from c [] i found = found"
| "rfind_from c (x # xs) i found = rfind_from c xs (i + 1) (if x = c then i else found)"

definition rfind :: "char \<Rightarrow> string \<Rightarrow> int" where
  "rfind c s = rfind_from c s 0 (- 1)"

text \<open>
  \<^verbatim>\<open>os.path.splitext(p)\<close> of posixpath: the extension starts at the last dot of the last
  path component, unless only dots come before it in that component. The inner loop
  looks for a character that is not a dot between the component's start and the last dot.
\<close>

function skip_leading_dots :: "string \<Rightarrow> nat \<Rightarrow> nat \<Rightarrow> bool" where
  "skip_leading_dots p filenameIndex dotIndex =
     (if filenameIndex < dotIndex then
        (if p ! filenameIndex \<noteq> CHR ''.'' then True
         else skip_leading_dots p (Suc filenameIndex) dotIndex)
      else False)"
  by pat_completeness auto
termination
  by (relation "measure (\<lambda>(p, i, d). d - i)") auto

definition splitext :: "string \<Rightarrow> string \<times> string" where
  "splitext p =
     (let sepIndex = rfind CHR ''/'' p;
          dotIndex = rfind CHR ''.'' p
      in if dotIndex > sepIndex \<and> skip_leading_dots p (nat (sepIndex + 1)) (nat dotIndex)
         then (take (nat dotIndex) p, drop (nat dotIndex) p)
         else (p, []))"

subsection \<open>Documents, outlines and the collaborators\<close>

text \<open>
  A langchain \<^verbatim>\<open>Document\<close>: its text and its metadata dict. The values the crawler
  reads and writes there are ints (\<^verbatim>\<open>start_index\<close>, the two line numbers) and strings
  (the loader's \<^verbatim>\<open>source\<close>).
\<close>

datatype meta_value = MInt int | MStr string

record Document =
  page_content :: string
  metadata :: "string \<rightharpoonup> meta_value"

text \<open>
  Modelled from the spec: \<^verbatim>\<open>SummaryPosition\<close> and \<^verbatim>\<open>FileSummary\<close> are declared in
  \<^verbatim>\<open>repogpt/parsers/base.py\<close>, which is not among the sources. The spec's SymbolSpan
  has a name, a start line and an end line; its FileOutline has the two sequences
  \<^verbatim>\<open>methods\<close> and \<^verbatim>\<open>classes\<close>, both empty in a fresh \<^verbatim>\<open>FileSummary()\<close>.
\<close>

record SummaryPosition =
  name :: string
  start_line :: int
  end_line :: int

record FileSummary =
  methods :: "SummaryPosition list"
  classes :: "SummaryPosition list"

definition FileSummary_new :: FileSummary where
  "FileSummary_new = \<lparr>methods = [], classes = []\<rparr>"

datatype Language =
    PYTHON | CPP | JAVA | GO | JS | PHP | PROTO | RST | RUBY | SCALA | SWIFT
  | MARKDOWN | LATEX | HTML

definition LANG_MAPPING :: "string \<rightharpoonup> Language" where
  "LANG_MAPPING = map_of
     [(''.py'', PYTHON), (''.cpp'', CPP), (''.cc'', CPP), (''.cxx'', CPP), (''.h'', CPP),
      (''.hpp'', CPP), (''.java'', JAVA), (''.go'', GO), (''.js'', JS), (''.ts'', JS),
      (''.php'', PHP), (''.proto'', PROTO), (''.rs'', RST), (''.rb'', RUBY),
      (''.scala'', SCALA), (''.swift'', SWIFT), (''.md'', MARKDOWN), (''.tex'', LATEX),
      (''.html'', HTML)]"

text \<open>
  Modelled from the spec: \<^verbatim>\<open>get_closest_method_class_in_snippet\<close> is defined in
  \<^verbatim>\<open>repogpt/parsers/base.py\<close>, which is not among the sources. The spec (4.3) makes it
  a deterministic, side-effect-free function from an outline and a chunk's line range to
  a context string, with no context sentence when no symbol matches. It is taken as a
  parameter of this type; it may raise.
\<close>

type_synonym resolver = "FileSummary \<Rightarrow> int \<Rightarrow> int \<Rightarrow> exn + string"

text \<open>
  The collaborators of the crawler. \<open>isdir\<close> and \<open>walk\<close> are \<^verbatim>\<open>os.path.isdir\<close> and
  \<^verbatim>\<open>os.walk\<close> (a list of triples: directory path, directory names, file names);
  \<open>load\<close> is \<^verbatim>\<open>TextLoader(path, encoding='utf-8').load()\<close>; \<open>split_documents\<close> is the
  langchain splitter built by \<^verbatim>\<open>from_language\<close> with \<^verbatim>\<open>add_start_index=True\<close>,
  applied to the documents; its chunks are new documents, each with its own metadata
  dict. The five parsers are classes of this repository that are not among the sources;
  each takes the file's text and name and may raise.
\<close>

record env =
  isdir :: "string \<Rightarrow> bool"
  walk :: "string \<Rightarrow> (string \<times> string list \<times> string list) list"
  load :: "string \<Rightarrow> exn + Document list"
  PythonParser :: "string \<Rightarrow> string \<Rightarrow> exn + FileSummary"
  CppTreeSitterParser :: "string \<Rightarrow> string \<Rightarrow> exn + FileSummary"
  JavaTreeSitterParser :: "string \<Rightarrow> string \<Rightarrow> exn + FileSummary"
  JsTreeSitterParser :: "string \<Rightarrow> string \<Rightarrow> exn + FileSummary"
  GoTreeSitterParser :: "string \<Rightarrow> string \<Rightarrow> exn + FileSummary"
  split_documents :: "Language \<Rightarrow> int \<Rightarrow> int \<Rightarrow> Document list \<Rightarrow> exn + Document list"
  get_closest_method_class_in_snippet :: resolver

subsection \<open>crawler.py: process_file\<close>

text \<open>The text that the f-string of \<^verbatim>\<open>process_file\<close> composes.\<close>

definition annotation :: "string \<Rightarrow> string \<Rightarrow> int \<Rightarrow> int \<Rightarrow> string \<Rightarrow> string \<Rightarrow> string" where
  "annotation dir_path file_name starting_line ending_line method_class_summary body =
     ''The following code snippet is from a file at location ''
     @ path_join dir_path file_name @ '' ''
     @ ''starting at line '' @ str_int starting_line
     @ '' and ending at line '' @ str_int ending_line @ ''. ''
     @ method_class_summary @ '' ''
     @ ''The code snippet starting at line '' @ str_int starting_line
     @ '' and ending at line ''
     @ str_int ending_line @ '' is \<newline> ```\<newline>'' @ body @ ''\<newline>``` ''"

text \<open>
  The body of the loop over \<^verbatim>\<open>split_docs\<close>, for one chunk: it reads the file's text
  and the chunk's \<^verbatim>\<open>start_index\<close>, writes the two line numbers into the chunk's
  metadata and replaces the chunk's text.
\<close>

definition annotate_doc ::
  "env \<Rightarrow> Document \<Rightarrow> string \<Rightarrow> string \<Rightarrow> FileSummary \<Rightarrow> Document \<Rightarrow> exn + Document" where
  "annotate_doc env file_doc dir_path file_name file_summary doc =
     (case metadata doc ''start_index'' of
        None \<Rightarrow> Inl (KeyError ''start_index'')
      | Some (MStr _) \<Rightarrow> Inl TypeError
      | Some (MInt start_index) \<Rightarrow>
          (let starting_line =
                 str_count CHR ''\<newline>'' (py_prefix (page_content file_doc) start_index) + 1;
               ending_line = starting_line + str_count CHR ''\<newline>'' (page_content doc);
               md = (metadata doc)(''starting_line'' \<mapsto> MInt starting_line,
                                   ''ending_line'' \<mapsto> MInt ending_line)
           in case get_closest_method_class_in_snippet env file_summary starting_line ending_line of
                Inl e \<Rightarrow> Inl e
              | Inr method_class_summary \<Rightarrow>
                  Inr \<lparr>page_content =
                         annotation dir_path file_name starting_line ending_line
                           method_class_summary (page_content doc),
                       metadata = md\<rparr>))"

text \<open>The loop itself: the first chunk that raises ends it.\<close>

fun annotate_docs ::
  "env \<Rightarrow> Document \<Rightarrow> string \<Rightarrow> string \<Rightarrow> FileSummary \<Rightarrow> Document list \<Rightarrow> exn + Document list" where
  "annotate_docs env file_doc dir_path file_name file_summary [] = Inr []"
| "annotate_docs env file_doc dir_path file_name file_summary (doc # docs) =
     (case annotate_doc env file_doc dir_path file_name file_summary doc of
        Inl e \<Rightarrow> Inl e
      | Inr doc' \<Rightarrow>
          (case annotate_docs env file_doc dir_path file_name file_summary docs of
             Inl e \<Rightarrow> Inl e
           | Inr docs' \<Rightarrow> Inr (doc' # docs')))"

text \<open>The chain of tests on the extension that picks the parser.\<close>

definition get_file_summary_for :: "env \<Rightarrow> string \<Rightarrow> string \<Rightarrow> string \<Rightarrow> exn + FileSummary" where
  "get_file_summary_for env extension code file_name =
     (if extension = ''.py'' then PythonParser env code file_name
      else if extension = ''.cpp'' then CppTreeSitterParser env code file_name
      else if extension = ''.java'' then JavaTreeSitterParser env code file_name
      else if extension = ''.js'' then JsTreeSitterParser env code file_name
      else if extension = ''.go'' then GoTreeSitterParser env code file_name
      else Inr FileSummary_new)"

definition lookup_language :: "string \<Rightarrow> exn + Language" where
  "lookup_language extension =
     (case LANG_MAPPING extension of None \<Rightarrow> Inl (KeyError extension) | Some l \<Rightarrow> Inr l)"

definition process_file ::
  "env \<Rightarrow> Document list \<Rightarrow> string \<Rightarrow> string \<Rightarrow> string \<Rightarrow> int \<Rightarrow> int \<Rightarrow> exn + Document list" where
  "process_file env file_contents dir_path file_name extension chunk_size chunk_overlap =
     (case file_contents of
        [] \<Rightarrow> Inl IndexError
      | file_doc # _ \<Rightarrow>
          (case get_file_summary_for env extension (page_content file_doc) file_name of
             Inl e \<Rightarrow> Inl e
           | Inr file_summary \<Rightarrow>
               (case lookup_language extension of
                  Inl e \<Rightarrow> Inl e
                | Inr language \<Rightarrow>
                    (case split_documents env language chunk_size chunk_overlap file_contents of
                       Inl e \<Rightarrow> Inl e
                     | Inr split_docs \<Rightarrow>
                         annotate_docs env file_doc dir_path file_name file_summary split_docs))))"

subsection \<open>crawler.py: filtering, the per-file step and the run\<close>

record FileProperties =
  dir_path :: string
  file_name :: string
  extension :: string

text \<open>
  What a run leaves behind besides its result: the lines it logs and the files it hands to
  the loader. \<open>LogInfo\<close> carries the message; \<open>LogError p e\<close> stands for the message
  \<^verbatim>\<open>Error processing file p. Skipping file. e\<close>.
\<close>

datatype event = LogInfo string | LogError string exn | Load string

definition contains_hidden_dir :: "string \<Rightarrow> bool" where
  "contains_hidden_dir dp = list_ex (\<lambda>directory. fnmatch directory ''.*'') (str_split CHR ''/'' dp)"

definition is_git_dir :: "env \<Rightarrow> string \<Rightarrow> bool" where
  "is_git_dir env dp = isdir env (path_join dp ''.git'')"

text \<open>The inner loop of \<^verbatim>\<open>filter_files\<close>, over the file names of one directory.\<close>

fun filter_filenames ::
  "string \<Rightarrow> string list \<Rightarrow> FileProperties list \<times> event list \<Rightarrow> FileProperties list \<times> event list" where
  "filter_filenames dp [] acc = acc"
| "filter_filenames dp (file # rest) (files_to_crawl, log) =
     (let ext = snd (splitext file)
      in if LANG_MAPPING ext \<noteq> None \<and> \<not> contains_hidden_dir dp
         then filter_filenames dp rest
                (files_to_crawl @ [\<lparr>dir_path = dp, file_name = file, extension = ext\<rparr>], log)
         else filter_filenames dp rest
                (files_to_crawl,
                 log @ [LogInfo (''Skipping '' @ path_join dp file
                                 @ '' - File or directory type not supported.'')]))"

text \<open>The outer loop, over the triples of \<^verbatim>\<open>os.walk\<close>.\<close>

fun filter_walk ::
  "(string \<times> string list \<times> string list) list \<Rightarrow> FileProperties list \<times> event list
   \<Rightarrow> FileProperties list \<times> event list" where
  "filter_walk [] acc = acc"
| "filter_walk ((dp, dir_names, filenames) # rest) acc =
     filter_walk rest (filter_filenames dp filenames acc)"

definition filter_files :: "env \<Rightarrow> string \<Rightarrow> (exn + FileProperties list) \<times> event list" where
  "filter_files env root_dir =
     (if \<not> is_git_dir env root_dir
      then (Inl (ValueError (root_dir @ '' is not a valid git root directory'')), [])
      else (case filter_walk (walk env root_dir) ([], []) of
              (files_to_crawl, log) \<Rightarrow> (Inr files_to_crawl, log)))"

text \<open>
  \<^verbatim>\<open>process_and_split\<close>: \<^verbatim>\<open>except Exception\<close> turns whatever the loader or
  \<^verbatim>\<open>process_file\<close> raises into a logged error and the result \<^verbatim>\<open>None\<close>.
\<close>

definition process_and_split ::
  "env \<Rightarrow> FileProperties \<Rightarrow> int \<Rightarrow> int \<Rightarrow> Document list option \<times> event list" where
  "process_and_split env file chunk_size chunk_overlap =
     (let path = path_join (dir_path file) (file_name file)
      in case load env path of
           Inl e \<Rightarrow> (None, [Load path, LogError path e])
         | Inr file_contents \<Rightarrow>
             (case process_file env file_contents (dir_path file) (file_name file)
                     (extension file) chunk_size chunk_overlap of
                Inl e \<Rightarrow> (None, [Load path, LogError path e])
              | Inr chunks \<Rightarrow> (Some chunks, [Load path])))"

text \<open>\<^verbatim>\<open>if docs:\<close> holds for a list that is neither \<^verbatim>\<open>None\<close> nor empty.\<close>

fun truthy :: "Document list option \<Rightarrow> bool" where
  "truthy None = False"
| "truthy (Some ds) = (ds \<noteq> [])"

text \<open>The loop of \<^verbatim>\<open>crawl_and_split\<close> over the filtered files, extending \<^verbatim>\<open>split_docs\<close>.\<close>

fun crawl_loop ::
  "env \<Rightarrow> int \<Rightarrow> int \<Rightarrow> FileProperties list \<Rightarrow> Document list \<times> event list
   \<Rightarrow> Document list \<times> event list" where
  "crawl_loop env chunk_size chunk_overlap [] acc = acc"
| "crawl_loop env chunk_size chunk_overlap (ff # ffs) (split_docs, log) =
     (case process_and_split env ff chunk_size chunk_overlap of
        (docs, evs) \<Rightarrow>
          crawl_loop env chunk_size chunk_overlap ffs
            (if truthy docs then split_docs @ the docs else split_docs, log @ evs))"

definition crawl_and_split ::
  "env \<Rightarrow> string \<Rightarrow> int \<Rightarrow> int \<Rightarrow> (exn + Document list) \<times> event list" where
  "crawl_and_split env root_dir chunk_size chunk_overlap =
     (case filter_files env root_dir of
        (Inl e, log) \<Rightarrow> (Inl e, log)
      | (Inr filtered_files, log) \<Rightarrow>
          (case crawl_loop env chunk_size chunk_overlap filtered_files ([], log) of
             (split_docs, log') \<Rightarrow> (Inr split_docs, log')))"

subsection \<open>treesitter_parser.py\<close>

text \<open>
  A node of the syntax tree, with what the traversal reads of it: its type, its children,
  its byte range and its start and end points (row, column).
\<close>

datatype node =
  Node (ntype: string) (children: "node list") (start_byte: nat) (end_byte: nat)
       (start_point: "nat \<times> nat") (end_point: "nat \<times> nat")

text \<open>
  The class attributes \<^verbatim>\<open>languages\<close> and \<^verbatim>\<open>loaded\<close>. A loaded language is
  represented by what a \<^verbatim>\<open>Parser\<close> set to it does: \<^verbatim>\<open>parse(bytes(code, "utf-8"))\<close>.
\<close>

type_synonym grammar = "string \<Rightarrow> exn + node"

record parser_state =
  languages :: "string \<rightharpoonup> grammar"
  loaded :: bool

text \<open>
  Building a grammar's shared object and loading it are tree-sitter's; either can raise.
\<close>

record ts_env =
  build_library :: "string \<Rightarrow> exn option"
  Language_load :: "string \<Rightarrow> exn + grammar"

definition LANGUAGE_NAMES :: "string list" where
  "LANGUAGE_NAMES = [''python'', ''java'', ''cpp'', ''go'', ''rust'', ''ruby'', ''php'']"

fun build_all :: "ts_env \<Rightarrow> string list \<Rightarrow> exn option" where
  "build_all tenv [] = None"
| "build_all tenv (language # rest) =
     (case build_library tenv language of Some e \<Rightarrow> Some e | None \<Rightarrow> build_all tenv rest)"

fun load_all :: "ts_env \<Rightarrow> string list \<Rightarrow> exn + (string \<times> grammar) list" where
  "load_all tenv [] = Inr []"
| "load_all tenv (language # rest) =
     (case Language_load tenv language of
        Inl e \<Rightarrow> Inl e
      | Inr g \<Rightarrow> (case load_all tenv rest of Inl e \<Rightarrow> Inl e | Inr gs \<Rightarrow> Inr ((language, g) # gs)))"

text \<open>
  \<^verbatim>\<open>initialize_treesitter\<close>: the clones (whose exit status is ignored), the builds, then
  the two assignments, which are reached only when nothing has raised.
\<close>

definition initialize_treesitter :: "ts_env \<Rightarrow> parser_state \<Rightarrow> exn + parser_state" where
  "initialize_treesitter tenv st =
     (case build_all tenv LANGUAGE_NAMES of
        Some e \<Rightarrow> Inl e
      | None \<Rightarrow>
          (case load_all tenv LANGUAGE_NAMES of
             Inl e \<Rightarrow> Inl e
           | Inr gs \<Rightarrow> Inr \<lparr>languages = map_of gs, loaded = True\<rparr>))"

definition extension_to_language :: "string \<rightharpoonup> string" where
  "extension_to_language = map_of
     [(''.py'', ''python''), (''.rs'', ''rust''), (''.go'', ''go''), (''.java'', ''java''),
      (''.cpp'', ''cpp''), (''.cc'', ''cpp''), (''.cxx'', ''cpp''), (''.c'', ''cpp''),
      (''.h'', ''cpp''), (''.hpp'', ''cpp''), (''.rb'', ''ruby''), (''.php'', ''php'')]"

text \<open>
  The two tests of \<^verbatim>\<open>traverse\<close> on a node. \<^verbatim>\<open>node.children[1]\<close> raises IndexError on
  a node with fewer than two children; the name is a slice of the text.
\<close>

definition span_of :: "string \<Rightarrow> node \<Rightarrow> exn + SummaryPosition" where
  "span_of code n =
     (case children n of
        _ # name_node # _ \<Rightarrow>
          Inr \<lparr>name = py_slice code (start_byte name_node) (end_byte name_node),
               start_line = int (fst (start_point n)),
               end_line = int (fst (end_point n))\<rparr>
      | _ \<Rightarrow> Inl IndexError)"

definition visit_function :: "string \<Rightarrow> node \<Rightarrow> FileSummary \<Rightarrow> exn + FileSummary" where
  "visit_function code n fs =
     (if ntype n = ''function_definition''
      then (case span_of code n of
              Inl e \<Rightarrow> Inl e
            | Inr sp \<Rightarrow> Inr (fs\<lparr>methods := methods fs @ [sp]\<rparr>))
      else Inr fs)"

definition visit_class :: "string \<Rightarrow> node \<Rightarrow> FileSummary \<Rightarrow> exn + FileSummary" where
  "visit_class code n fs =
     (if ntype n = ''class_specifier''
      then (case span_of code n of
              Inl e \<Rightarrow> Inl e
            | Inr sp \<Rightarrow> Inr (fs\<lparr>classes := classes fs @ [sp]\<rparr>))
      else Inr fs)"

fun traverse :: "string \<Rightarrow> node \<Rightarrow> FileSummary \<Rightarrow> exn + FileSummary"
  and traverse_children :: "string \<Rightarrow> node list \<Rightarrow> FileSummary \<Rightarrow> exn + FileSummary" where
  "traverse code (Node t cs sb eb sp ep) fs =
     (case visit_function code (Node t cs sb eb sp ep) fs of
        Inl e \<Rightarrow> Inl e
      | Inr fs1 \<Rightarrow>
          (case visit_class code (Node t cs sb eb sp ep) fs1 of
             Inl e \<Rightarrow> Inl e
           | Inr fs2 \<Rightarrow> traverse_children code cs fs2))"
| "traverse_children code [] fs = Inr fs"
| "traverse_children code (child # rest) fs =
     (case traverse code child fs of
        Inl e \<Rightarrow> Inl e
      | Inr fs' \<Rightarrow> traverse_children code rest fs')"

text \<open>
  \<^verbatim>\<open>TreeSitterParser.get_file_summary\<close>, with the class attributes passed in and
  returned. \<^verbatim>\<open>sorted(..., key=lambda x: x.start_line)\<close> is a stable sort on the key.
\<close>

definition get_file_summary ::
  "ts_env \<Rightarrow> parser_state \<Rightarrow> string \<Rightarrow> string \<Rightarrow> (exn + FileSummary) \<times> parser_state" where
  "get_file_summary tenv st code fname =
     (case (if \<not> loaded st then initialize_treesitter tenv st else Inr st) of
        Inl e \<Rightarrow> (Inl e, st)
      | Inr st1 \<Rightarrow>
          (let ext = snd (splitext fname)
           in case extension_to_language ext of
                None \<Rightarrow> (Inr FileSummary_new, st1)
              | Some language_name \<Rightarrow>
                  (case languages st1 language_name of
                     None \<Rightarrow> (Inl (KeyError language_name), st1)
                   | Some parse \<Rightarrow>
                       (case parse code of
                          Inl e \<Rightarrow> (Inl e, st1)
                        | Inr root_node \<Rightarrow>
                            (case traverse code root_node FileSummary_new of
                               Inl e \<Rightarrow> (Inl e, st1)
                             | Inr file_summary \<Rightarrow>
                                 (Inr \<lparr>methods = sort_key start_line (methods file_summary),
                                       classes = sort_key start_line (classes file_summary)\<rparr>,
                                  st1))))))"

subsection \<open>The annotation text in the words of the specification\<close>

text \<open>
  The specification (4.4) gives the composed text as a template. This definition follows
  the template's words, for comparison with \<open>annotation\<close> above.
\<close>

definition spec_annotation :: "string \<Rightarrow> int \<Rightarrow> int \<Rightarrow> string \<Rightarrow> string \<Rightarrow> string" where
  "spec_annotation path s e context body =
     ''The following code snippet is from a file at location '' @ path
     @ '' starting at line '' @ str_int s @ '' and ending at line '' @ str_int e @ ''. ''
     @ context
     @ '' The code snippet starting at line '' @ str_int s @ '' and ending at line ''
     @ str_int e @ '' is \<newline>```\<newline>'' @ body @ ''\<newline>``` ''"

subsection \<open>Example inputs\<close>

text \<open>
  A small repository: a configuration file at the root, a Python file under
  \<^verbatim>\<open>.git/objects\<close> and one two levels down under \<^verbatim>\<open>src/pkg\<close>. The splitter of the
  example returns each document as one chunk that starts at index 0, no parser finds a
  symbol, and the resolver finds no match.
\<close>

definition no_context :: resolver where
  "no_context fs s e = Inr []"

definition whole_file_chunk :: "Document \<Rightarrow> Document" where
  "whole_file_chunk d =
     \<lparr>page_content = page_content d, metadata = (metadata d)(''start_index'' \<mapsto> MInt 0)\<rparr>"

definition one_chunk_splitter :: "Language \<Rightarrow> int \<Rightarrow> int \<Rightarrow> Document list \<Rightarrow> exn + Document list" where
  "one_chunk_splitter l cs co docs = Inr (map whole_file_chunk docs)"

definition no_parser :: "string \<Rightarrow> string \<Rightarrow> exn + FileSummary" where
  "no_parser code fname = Inr FileSummary_new"

definition example_walk :: "string \<Rightarrow> (string \<times> string list \<times> string list) list" where
  "example_walk r =
     [(''/repo'', [''.git'', ''src''], [''setup.cfg'']),
      (''/repo/.git/objects'', [], [''pack.py'']),
      (''/repo/src/pkg'', [], [''main.py'', ''notes.md''])]"

definition example_load :: "string \<Rightarrow> exn + Document list" where
  "example_load p = Inr [\<lparr>page_content = ''x'', metadata = [''source'' \<mapsto> MStr p]\<rparr>]"

definition example_isdir :: "string \<Rightarrow> bool" where
  "example_isdir p = (p = ''/repo/.git'')"

definition example_env :: env where
  "example_env =
     \<lparr>isdir = example_isdir, walk = example_walk, load = example_load,
      PythonParser = no_parser, CppTreeSitterParser = no_parser,
      JavaTreeSitterParser = no_parser, JsTreeSitterParser = no_parser,
      GoTreeSitterParser = no_parser, split_documents = one_chunk_splitter,
      get_closest_method_class_in_snippet = no_context\<rparr>"

text \<open>A file of three lines, its first two lines as a chunk, and its last two.\<close>

definition example_file :: Document where
  "example_file =
     \<lparr>page_content = ''a\<newline>b\<newline>c'', metadata = [''source'' \<mapsto> MStr ''/repo/a.py'']\<rparr>"

definition first_chunk :: Document where
  "first_chunk = \<lparr>page_content = ''a\<newline>b'',
     metadata = [''source'' \<mapsto> MStr ''/repo/a.py'', ''start_index'' \<mapsto> MInt 0]\<rparr>"

definition example_chunk :: Document where
  "example_chunk = \<lparr>page_content = ''b\<newline>c'',
     metadata = [''source'' \<mapsto> MStr ''/repo/a.py'', ''start_index'' \<mapsto> MInt 2]\<rparr>"

text \<open>
  A repository of ten Python files in one directory; the fourth cannot be decoded.
\<close>

definition ten_walk :: "string \<Rightarrow> (string \<times> string list \<times> string list) list" where
  "ten_walk r =
     [(''/repo'', [],
       [''f0.py'', ''f1.py'', ''f2.py'', ''f3.py'', ''f4.py'', ''f5.py'', ''f6.py'', ''f7.py'',
        ''f8.py'', ''f9.py''])]"

definition ten_load :: "string \<Rightarrow> exn + Document list" where
  "ten_load p =
     (if p = ''/repo/f3.py'' then Inl (UnicodeDecodeError p)
      else Inr [\<lparr>page_content = ''x'', metadata = [''source'' \<mapsto> MStr p]\<rparr>])"

definition ten_env :: env where
  "ten_env = example_env\<lparr>walk := ten_walk, load := ten_load\<rparr>"

definition ten_before :: "FileProperties list" where
  "ten_before =
     [\<lparr>dir_path = ''/repo'', file_name = ''f0.py'', extension = ''.py''\<rparr>,
      \<lparr>dir_path = ''/repo'', file_name = ''f1.py'', extension = ''.py''\<rparr>,
      \<lparr>dir_path = ''/repo'', file_name = ''f2.py'', extension = ''.py''\<rparr>]"

definition ten_bad :: FileProperties where
  "ten_bad = \<lparr>dir_path = ''/repo'', file_name = ''f3.py'', extension = ''.py''\<rparr>"

definition ten_after :: "FileProperties list" where
  "ten_after =
     [\<lparr>dir_path = ''/repo'', file_name = ''f4.py'', extension = ''.py''\<rparr>,
      \<lparr>dir_path = ''/repo'', file_name = ''f5.py'', extension = ''.py''\<rparr>,
      \<lparr>dir_path = ''/repo'', file_name = ''f6.py'', extension = ''.py''\<rparr>,
      \<lparr>dir_path = ''/repo'', file_name = ''f7.py'', extension = ''.py''\<rparr>,
      \<lparr>dir_path = ''/repo'', file_name = ''f8.py'', extension = ''.py''\<rparr>,
      \<lparr>dir_path = ''/repo'', file_name = ''f9.py'', extension = ''.py''\<rparr>]"

text \<open>
  Two function definitions and a syntax tree for them whose root lists the second
  function first, so that the traversal appends the spans out of order. Loading any
  grammar succeeds in the example, and every grammar parses to this tree.
\<close>

definition example_code :: string where
  "example_code = ''def f():\<newline>  pass\<newline>\<newline>def g():\<newline>  pass''"

definition example_tree :: node where
  "example_tree =
     Node ''module''
       [Node ''function_definition''
          [Node ''def'' [] 17 20 (3, 0) (3, 3), Node ''identifier'' [] 21 22 (3, 4) (3, 5)]
          17 32 (3, 0) (4, 6),
        Node ''function_definition''
          [Node ''def'' [] 0 3 (0, 0) (0, 3), Node ''identifier'' [] 4 5 (0, 4) (0, 5)]
          0 15 (0, 0) (1, 6)]
       0 32 (0, 0) (4, 6)"

definition example_parse :: grammar where
  "example_parse code = Inr example_tree"

definition example_build :: "string \<Rightarrow> exn option" where
  "example_build language = None"

definition example_Language_load :: "string \<Rightarrow> exn + grammar" where
  "example_Language_load language = Inr example_parse"

definition example_ts_env :: ts_env where
  "example_ts_env = \<lparr>build_library = example_build, Language_load = example_Language_load\<rparr>"

definition loaded_state :: parser_state where
  "loaded_state = \<lparr>languages = [''python'' \<mapsto> example_parse], loaded = True\<rparr>"

definition fresh_state :: parser_state where
  "fresh_state = \<lparr>languages = Map.empty, loaded = False\<rparr>"

section \<open>Properties\<close>

subsection \<open>Auxiliary facts\<close>

lemma fnmatch_star: "fnmatch cs ''*''"
  by (induction cs) auto

lemma fnmatch_hidden: "fnmatch c ''.*'' \<longleftrightarrow> (c \<noteq> [] \<and> hd c = CHR ''.'')"
  by (cases c) (auto simp: fnmatch_star)

lemma contains_hidden_dir_iff:
  "contains_hidden_dir dp \<longleftrightarrow> (\<exists>c \<in> set (str_split CHR ''/'' dp). c \<noteq> [] \<and> hd c = CHR ''.'')"
  by (simp add: contains_hidden_dir_def list_ex_iff fnmatch_hidden)

lemma filter_filenames_set:
  "set (fst (filter_filenames dp fns (acc, log))) =
     set acc \<union> {\<lparr>dir_path = dp, file_name = f, extension = snd (splitext f)\<rparr> | f.
                  f \<in> set fns \<and> LANG_MAPPING (snd (splitext f)) \<noteq> None \<and> \<not> contains_hidden_dir dp}"
  by (induction fns arbitrary: acc log) (auto simp: Let_def)

lemma filter_walk_set:
  "set (fst (filter_walk w acc)) =
     set (fst acc) \<union> {\<lparr>dir_path = dp, file_name = f, extension = snd (splitext f)\<rparr> | dp dn fns f.
                  (dp, dn, fns) \<in> set w \<and> f \<in> set fns \<and> LANG_MAPPING (snd (splitext f)) \<noteq> None
                  \<and> \<not> contains_hidden_dir dp}"
proof (induction w arbitrary: acc)
  case Nil
  then show ?case by simp
next
  case (Cons t w)
  obtain dp dn fns where t: "t = (dp, dn, fns)" by (cases t) auto
  obtain a l where acc: "acc = (a, l)" by (cases acc) auto
  show ?case
    unfolding t acc filter_walk.simps Cons.IH filter_filenames_set
    by (auto; blast)
qed

lemma filter_files_set:
  assumes "filter_files env root = (Inr q, log)"
  shows "set q = {\<lparr>dir_path = dp, file_name = f, extension = snd (splitext f)\<rparr> | dp dn fns f.
                  (dp, dn, fns) \<in> set (walk env root) \<and> f \<in> set fns
                  \<and> LANG_MAPPING (snd (splitext f)) \<noteq> None \<and> \<not> contains_hidden_dir dp}"
proof -
  from assms have "q = fst (filter_walk (walk env root) ([], []))"
    by (auto simp: filter_files_def split: if_splits prod.splits)
  then show ?thesis by (simp add: filter_walk_set)
qed

lemma crawl_loop_fst:
  "fst (crawl_loop env cs co ffs (acc, log)) =
     acc @ concat (map (\<lambda>ff. case fst (process_and_split env ff cs co) of
                               None \<Rightarrow> [] | Some ds \<Rightarrow> ds) ffs)"
proof (induction ffs arbitrary: acc log)
  case Nil
  then show ?case by simp
next
  case (Cons ff ffs)
  obtain docs evs where p: "process_and_split env ff cs co = (docs, evs)"
    by (cases "process_and_split env ff cs co") auto
  show ?case
    by (cases docs) (simp_all add: p Cons.IH)
qed

lemma crawl_loop_snd:
  "snd (crawl_loop env cs co ffs (acc, log)) =
     log @ concat (map (\<lambda>ff. snd (process_and_split env ff cs co)) ffs)"
proof (induction ffs arbitrary: acc log)
  case Nil
  then show ?case by simp
next
  case (Cons ff ffs)
  obtain docs evs where p: "process_and_split env ff cs co = (docs, evs)"
    by (cases "process_and_split env ff cs co") auto
  show ?case
    by (simp add: p Cons.IH)
qed

lemma process_and_split_chunks:
  "(case fst (process_and_split env ff cs co) of None \<Rightarrow> [] | Some ds \<Rightarrow> ds) =
     (case load env (path_join (dir_path ff) (file_name ff)) of
        Inl _ \<Rightarrow> []
      | Inr fc \<Rightarrow>
          (case process_file env fc (dir_path ff) (file_name ff) (extension ff) cs co of
             Inl _ \<Rightarrow> [] | Inr chunks \<Rightarrow> chunks))"
  by (simp add: process_and_split_def Let_def split: sum.splits)

lemma annotate_docs_nth:
  "annotate_docs env file_doc d f fs docs = Inr out \<Longrightarrow>
     length out = length docs \<and>
     (\<forall>i < length docs. annotate_doc env file_doc d f fs (docs ! i) = Inr (out ! i))"
proof (induction docs arbitrary: out)
  case Nil
  then show ?case by simp
next
  case (Cons doc docs)
  then obtain doc' docs' where
    h: "annotate_doc env file_doc d f fs doc = Inr doc'"
       "annotate_docs env file_doc d f fs docs = Inr docs'" "out = doc' # docs'"
    by (auto split: sum.splits)
  from Cons.IH [OF h(2)] h show ?case
    by (auto simp: nth_Cons split: nat.splits)
qed

lemma annotate_doc_env:
  "get_closest_method_class_in_snippet env' = get_closest_method_class_in_snippet env \<Longrightarrow>
     annotate_doc env' file_doc d f fs doc = annotate_doc env file_doc d f fs doc"
  by (simp add: annotate_doc_def Let_def split: option.splits meta_value.splits)

lemma str_int_1: "str_int 1 = ''1''"
  by (simp add: str_int_def digit_char_def)

lemma str_int_2: "str_int 2 = ''2''"
  by (simp add: str_int_def digit_char_def)

lemma str_int_3: "str_int 3 = ''3''"
  by (simp add: str_int_def digit_char_def)

lemma example_annotate:
  "annotate_doc example_env example_file ''/repo'' ''a.py'' FileSummary_new example_chunk =
     Inr \<lparr>page_content = annotation ''/repo'' ''a.py'' 2 3 [] ''b\<newline>c'',
          metadata = [''source'' \<mapsto> MStr ''/repo/a.py'', ''start_index'' \<mapsto> MInt 2,
                      ''starting_line'' \<mapsto> MInt 2, ''ending_line'' \<mapsto> MInt 3]\<rparr>"
  by (simp add: annotate_doc_def example_env_def example_file_def example_chunk_def
      no_context_def str_count_def py_prefix_def)

lemma first_chunk_annotate:
  "annotate_doc example_env example_file ''/repo'' ''a.py'' FileSummary_new first_chunk =
     Inr \<lparr>page_content = annotation ''/repo'' ''a.py'' 1 2 [] ''a\<newline>b'',
          metadata = [''source'' \<mapsto> MStr ''/repo/a.py'', ''start_index'' \<mapsto> MInt 0,
                      ''starting_line'' \<mapsto> MInt 1, ''ending_line'' \<mapsto> MInt 2]\<rparr>"
  by (simp add: annotate_doc_def example_env_def example_file_def first_chunk_def
      no_context_def str_count_def py_prefix_def)

lemma example_filter:
  "filter_files example_env ''/repo'' =
     (Inr [\<lparr>dir_path = ''/repo/src/pkg'', file_name = ''main.py'', extension = ''.py''\<rparr>,
           \<lparr>dir_path = ''/repo/src/pkg'', file_name = ''notes.md'', extension = ''.md''\<rparr>],
      [LogInfo ''Skipping /repo/setup.cfg - File or directory type not supported.'',
       LogInfo ''Skipping /repo/.git/objects/pack.py - File or directory type not supported.''])"
  by (simp add: filter_files_def is_git_dir_def example_env_def example_isdir_def
      example_walk_def path_join_def splitext_def rfind_def LANG_MAPPING_def
      contains_hidden_dir_def Let_def)

lemma ten_filter:
  "filter_files ten_env ''/repo'' = (Inr (ten_before @ [ten_bad] @ ten_after), [])"
  by (simp add: filter_files_def is_git_dir_def ten_env_def example_env_def example_isdir_def
      ten_walk_def path_join_def splitext_def rfind_def LANG_MAPPING_def
      contains_hidden_dir_def ten_before_def ten_bad_def ten_after_def Let_def)

lemma ten_process_file:
  "process_file ten_env [\<lparr>page_content = ''x'', metadata = [''source'' \<mapsto> MStr p]\<rparr>]
     ''/repo'' f ''.py'' 3000 0 =
   Inr [\<lparr>page_content = annotation ''/repo'' f 1 1 [] ''x'',
         metadata = [''source'' \<mapsto> MStr p, ''start_index'' \<mapsto> MInt 0,
                     ''starting_line'' \<mapsto> MInt 1, ''ending_line'' \<mapsto> MInt 1]\<rparr>]"
  by (simp add: process_file_def get_file_summary_for_def ten_env_def example_env_def
      no_parser_def lookup_language_def LANG_MAPPING_def one_chunk_splitter_def
      whole_file_chunk_def annotate_doc_def no_context_def str_count_def py_prefix_def)

lemma example_summary:
  "get_file_summary example_ts_env loaded_state example_code ''a.py'' =
     (Inr \<lparr>methods = [\<lparr>name = ''f'', start_line = 0, end_line = 1\<rparr>,
                       \<lparr>name = ''g'', start_line = 3, end_line = 4\<rparr>],
           classes = []\<rparr>, loaded_state)"
  by (simp add: get_file_summary_def loaded_state_def splitext_def rfind_def
      extension_to_language_def example_parse_def example_tree_def FileSummary_new_def
      visit_function_def visit_class_def span_of_def py_slice_def example_code_def)

lemma example_initialize:
  "initialize_treesitter example_ts_env fresh_state =
     Inr \<lparr>languages = map_of [(''python'', example_parse), (''java'', example_parse),
             (''cpp'', example_parse), (''go'', example_parse), (''rust'', example_parse),
             (''ruby'', example_parse), (''php'', example_parse)],
          loaded = True\<rparr>"
  by (simp add: initialize_treesitter_def LANGUAGE_NAMES_def example_ts_env_def
      example_build_def example_Language_load_def)

lemma process_file_no_parser:
  assumes "ext \<notin> {''.py'', ''.cpp'', ''.java'', ''.js'', ''.go''}"
    and "LANG_MAPPING ext = Some language"
  shows "process_file env (file_doc # rest) d f ext cs co =
           (case split_documents env language cs co (file_doc # rest) of
              Inl e \<Rightarrow> Inl e
            | Inr split_docs \<Rightarrow>
                annotate_docs env file_doc d f \<lparr>methods = [], classes = []\<rparr> split_docs)"
  using assms
  by (simp add: process_file_def get_file_summary_for_def lookup_language_def
      FileSummary_new_def)

lemma process_file_chunks:
  assumes "process_file env fc d f ext cs co = Inr out"
  shows "\<exists>file_doc rest fs language split_docs.
           fc = file_doc # rest
           \<and> get_file_summary_for env ext (page_content file_doc) f = Inr fs
           \<and> LANG_MAPPING ext = Some language
           \<and> split_documents env language cs co fc = Inr split_docs
           \<and> length out = length split_docs
           \<and> (\<forall>i < length split_docs.
                 annotate_doc env file_doc d f fs (split_docs ! i) = Inr (out ! i))"
proof -
  from assms obtain file_doc rest fs language split_docs where
    h: "fc = file_doc # rest"
       "get_file_summary_for env ext (page_content file_doc) f = Inr fs"
       "LANG_MAPPING ext = Some language"
       "split_documents env language cs co fc = Inr split_docs"
       "annotate_docs env file_doc d f fs split_docs = Inr out"
    by (auto simp: process_file_def lookup_language_def
        split: list.splits sum.splits option.splits)
  from annotate_docs_nth [OF h(5)] h(1-4) show ?thesis by blast
qed

subsection \<open>The claims\<close>

text \<open>
  C1 (Line Resolver). For a chunk whose \<^verbatim>\<open>start_index\<close> is \<open>ofs\<close>, the loop body of
  \<^verbatim>\<open>process_file\<close> stores as starting line the number of newline characters in
  \<^verbatim>\<open>text[:ofs]\<close> plus one, and as ending line the starting line plus the number of newline
  characters in the chunk's own text. Hence the ending line is never below the starting
  line, and a chunk at offset 0 starts on line 1. For an offset that is not negative,
  \<^verbatim>\<open>text[:ofs]\<close> is the first \<open>ofs\<close> characters of the text.
\<close>

theorem line_resolver:
  assumes "annotate_doc env file_doc d f fs doc = Inr doc'"
    and "metadata doc ''start_index'' = Some (MInt ofs)"
  shows "\<exists>s e. metadata doc' ''starting_line'' = Some (MInt s)
           \<and> metadata doc' ''ending_line'' = Some (MInt e)
           \<and> s = str_count CHR ''\<newline>'' (py_prefix (page_content file_doc) ofs) + 1
           \<and> e = s + str_count CHR ''\<newline>'' (page_content doc)
           \<and> s \<le> e
           \<and> (0 \<le> ofs \<longrightarrow> py_prefix (page_content file_doc) ofs = take (nat ofs) (page_content file_doc))
           \<and> (ofs = 0 \<longrightarrow> s = 1)"
  using assms
  by (auto simp: annotate_doc_def Let_def str_count_def py_prefix_def split: sum.splits)

theorem line_resolver_witness:
  "metadata (projr (annotate_doc example_env example_file ''/repo'' ''a.py'' FileSummary_new
                      first_chunk)) ''starting_line'' = Some (MInt 1)
   \<and> metadata (projr (annotate_doc example_env example_file ''/repo'' ''a.py'' FileSummary_new
                      first_chunk)) ''ending_line'' = Some (MInt 2)"
proof -
  have m: "metadata first_chunk ''start_index'' = Some (MInt 0)"
    by (simp add: first_chunk_def)
  from line_resolver [OF first_chunk_annotate m] show ?thesis
    unfolding first_chunk_annotate by (simp add: first_chunk_def str_count_def)
qed

text \<open>
  C2 (sorted outline). Whenever \<^verbatim>\<open>TreeSitterParser.get_file_summary\<close> returns an
  outline, its methods and its classes are each in non-decreasing order of start line,
  whatever the order in which the traversal appended them; this covers the empty outline
  of an unsupported extension and outlines of a single span.
\<close>

theorem outline_sorted:
  assumes "get_file_summary tenv st code fname = (Inr fs, st')"
  shows "sorted (map start_line (methods fs)) \<and> sorted (map start_line (classes fs))"
  using assms
  by (auto simp: get_file_summary_def Let_def FileSummary_new_def
      split: sum.splits option.splits if_splits)

theorem outline_sorted_witness:
  "map start_line (methods (projr (fst
      (get_file_summary example_ts_env loaded_state example_code ''a.py'')))) = [0, 3]
   \<and> sorted (map start_line (methods (projr (fst
      (get_file_summary example_ts_env loaded_state example_code ''a.py'')))))
   \<and> sorted (map start_line (classes (projr (fst
      (get_file_summary example_ts_env loaded_state example_code ''a.py'')))))"
  using outline_sorted [OF example_summary]
  unfolding example_summary by simp

text \<open>
  C3 (Chunk Annotator), as the specification words it. There the composed text has the
  opening fence right after the newline that follows \<^verbatim>\<open>is\<close>. The f-string of
  \<^verbatim>\<open>process_file\<close> has a space between that newline and the fence, so the text that
  the code composes is not the specification's; here on the example chunk.
\<close>

theorem annotation_text_counterexample:
  "map_sum id page_content
     (annotate_doc example_env example_file ''/repo'' ''a.py'' FileSummary_new example_chunk)
   \<noteq> Inr (spec_annotation (path_join ''/repo'' ''a.py'') 2 3 [] ''b\<newline>c'')"
  by (simp add: example_annotate annotation_def spec_annotation_def path_join_def
      str_int_2 str_int_3)

text \<open>
  C3 (Chunk Annotator), as the code has it. The composed text is the template with a space
  between the newline and the opening fence, the path being
  \<^verbatim>\<open>os.path.join(dir_path, file_name)\<close> and the context being the resolver's string
  as it is; when that string is empty nothing stands in its place, and the two blanks
  around it remain.
\<close>

theorem annotation_text:
  assumes "annotate_doc env file_doc d f fs doc = Inr doc'"
  shows "\<exists>s e c. metadata doc' ''starting_line'' = Some (MInt s)
           \<and> metadata doc' ''ending_line'' = Some (MInt e)
           \<and> get_closest_method_class_in_snippet env fs s e = Inr c
           \<and> page_content doc' =
               ''The following code snippet is from a file at location '' @ path_join d f
               @ '' starting at line '' @ str_int s @ '' and ending at line '' @ str_int e
               @ ''. '' @ c @ '' The code snippet starting at line '' @ str_int s
               @ '' and ending at line '' @ str_int e
               @ '' is \<newline> ```\<newline>'' @ page_content doc @ ''\<newline>``` ''
           \<and> (c = [] \<longrightarrow> page_content doc' =
               ''The following code snippet is from a file at location '' @ path_join d f
               @ '' starting at line '' @ str_int s @ '' and ending at line '' @ str_int e
               @ ''.  The code snippet starting at line '' @ str_int s
               @ '' and ending at line '' @ str_int e
               @ '' is \<newline> ```\<newline>'' @ page_content doc @ ''\<newline>``` '')"
  using assms
  by (auto simp: annotate_doc_def Let_def annotation_def
      split: option.splits meta_value.splits sum.splits)

theorem annotation_text_witness:
  "page_content (projr (annotate_doc example_env example_file ''/repo'' ''a.py'' FileSummary_new example_chunk))
   = ''The following code snippet is from a file at location /repo/a.py starting at line 2 and ending at line 3.  The code snippet starting at line 2 and ending at line 3 is \<newline> ```\<newline>b\<newline>c\<newline>``` ''"
proof -
  obtain doc' where d: "annotate_doc example_env example_file ''/repo'' ''a.py'' FileSummary_new example_chunk = Inr doc'"
    and m: "metadata doc' ''starting_line'' = Some (MInt 2)" "metadata doc' ''ending_line'' = Some (MInt 3)"
    using example_annotate by simp
  from annotation_text [OF d] m obtain c where
    c: "get_closest_method_class_in_snippet example_env FileSummary_new 2 3 = Inr c"
    and p: "c = [] \<longrightarrow> page_content doc' =
               ''The following code snippet is from a file at location '' @ path_join ''/repo'' ''a.py''
               @ '' starting at line '' @ str_int 2 @ '' and ending at line '' @ str_int 3
               @ ''.  The code snippet starting at line '' @ str_int 2
               @ '' and ending at line '' @ str_int 3
               @ '' is \<newline> ```\<newline>'' @ page_content example_chunk @ ''\<newline>``` ''"
    by auto
  from c have "c = []" by (simp add: example_env_def no_context_def)
  with p d show ?thesis
    by (simp add: path_join_def str_int_2 str_int_3 example_chunk_def)
qed

text \<open>
  C4 (no structural parser). In \<^verbatim>\<open>process_file\<close>, an extension other than the five
  that have a parser gets the empty outline without any parser being called, so the
  outline step cannot raise. For a file that the filter has queued and whose extension is
  not one of the five, \<^verbatim>\<open>process_file\<close> then looks the splitter's language up, runs
  the splitter on the file and annotates its chunks against the empty outline. In
  \<^verbatim>\<open>TreeSitterParser.get_file_summary\<close>, a file name whose extension is not in the
  extension table gets the empty outline, once the grammars are loaded.
\<close>

theorem unsupported_language_empty_outline:
  "(ext \<notin> {''.py'', ''.cpp'', ''.java'', ''.js'', ''.go''} \<longrightarrow>
      get_file_summary_for env ext code fname = Inr \<lparr>methods = [], classes = []\<rparr>)
   \<and> (filter_files env root = (Inr q, log) \<and> ff \<in> set q
        \<and> extension ff \<notin> {''.py'', ''.cpp'', ''.java'', ''.js'', ''.go''} \<longrightarrow>
      (\<exists>language. LANG_MAPPING (extension ff) = Some language
         \<and> process_file env (file_doc # rest) (dir_path ff) (file_name ff) (extension ff) cs co =
             (case split_documents env language cs co (file_doc # rest) of
                Inl e \<Rightarrow> Inl e
              | Inr split_docs \<Rightarrow>
                  annotate_docs env file_doc (dir_path ff) (file_name ff)
                    \<lparr>methods = [], classes = []\<rparr> split_docs)))
   \<and> (extension_to_language (snd (splitext fname')) = None
        \<and> (if \<not> loaded st then initialize_treesitter tenv st else Inr st) = Inr st1 \<longrightarrow>
      get_file_summary tenv st code' fname' = (Inr \<lparr>methods = [], classes = []\<rparr>, st1))"
proof (intro conjI impI)
  assume "ext \<notin> {''.py'', ''.cpp'', ''.java'', ''.js'', ''.go''}"
  then show "get_file_summary_for env ext code fname = Inr \<lparr>methods = [], classes = []\<rparr>"
    by (simp add: get_file_summary_for_def FileSummary_new_def)
next
  assume a: "filter_files env root = (Inr q, log) \<and> ff \<in> set q
        \<and> extension ff \<notin> {''.py'', ''.cpp'', ''.java'', ''.js'', ''.go''}"
  then have "ff \<in> set q" by simp
  then obtain language where l: "LANG_MAPPING (extension ff) = Some language"
    unfolding filter_files_set [OF a [THEN conjunct1]] by auto
  from a have "extension ff \<notin> {''.py'', ''.cpp'', ''.java'', ''.js'', ''.go''}" by simp
  from process_file_no_parser [OF this l] l
  show "\<exists>language. LANG_MAPPING (extension ff) = Some language
         \<and> process_file env (file_doc # rest) (dir_path ff) (file_name ff) (extension ff) cs co =
             (case split_documents env language cs co (file_doc # rest) of
                Inl e \<Rightarrow> Inl e
              | Inr split_docs \<Rightarrow>
                  annotate_docs env file_doc (dir_path ff) (file_name ff)
                    \<lparr>methods = [], classes = []\<rparr> split_docs)"
    by blast
next
  assume "extension_to_language (snd (splitext fname')) = None
        \<and> (if \<not> loaded st then initialize_treesitter tenv st else Inr st) = Inr st1"
  then show "get_file_summary tenv st code' fname' = (Inr \<lparr>methods = [], classes = []\<rparr>, st1)"
    by (auto simp: get_file_summary_def FileSummary_new_def Let_def)
qed

theorem unsupported_language_empty_outline_witness:
  "get_file_summary_for example_env ''.md'' ''x'' ''notes.md'' = Inr \<lparr>methods = [], classes = []\<rparr>
   \<and> map page_content (projr (process_file example_env
        [\<lparr>page_content = ''x'', metadata = Map.empty\<rparr>] ''/repo/src/pkg'' ''notes.md'' ''.md''
        3000 0)) =
       [annotation ''/repo/src/pkg'' ''notes.md'' 1 1 [] ''x'']
   \<and> fst (get_file_summary example_ts_env fresh_state example_code ''notes.md'') =
       Inr \<lparr>methods = [], classes = []\<rparr>
   \<and> loaded (snd (get_file_summary example_ts_env fresh_state example_code ''notes.md''))"
proof -
  let ?ff = "\<lparr>dir_path = ''/repo/src/pkg'', file_name = ''notes.md'', extension = ''.md''\<rparr>"
  let ?doc = "\<lparr>page_content = ''x'', metadata = Map.empty\<rparr>"
  let ?st1 = "\<lparr>languages = map_of [(''python'', example_parse), (''java'', example_parse),
             (''cpp'', example_parse), (''go'', example_parse), (''rust'', example_parse),
             (''ruby'', example_parse), (''php'', example_parse)],
          loaded = True\<rparr>"
  have 1: "''.md'' \<notin> {''.py'', ''.cpp'', ''.java'', ''.js'', ''.go''}" by simp
  have 2: "filter_files example_env ''/repo'' =
             (Inr [\<lparr>dir_path = ''/repo/src/pkg'', file_name = ''main.py'', extension = ''.py''\<rparr>, ?ff],
              [LogInfo ''Skipping /repo/setup.cfg - File or directory type not supported.'',
               LogInfo ''Skipping /repo/.git/objects/pack.py - File or directory type not supported.''])
           \<and> ?ff \<in> set [\<lparr>dir_path = ''/repo/src/pkg'', file_name = ''main.py'', extension = ''.py''\<rparr>, ?ff]
           \<and> extension ?ff \<notin> {''.py'', ''.cpp'', ''.java'', ''.js'', ''.go''}"
    by (simp add: example_filter)
  have 3: "extension_to_language (snd (splitext ''notes.md'')) = None
           \<and> (if \<not> loaded fresh_state then initialize_treesitter example_ts_env fresh_state
                else Inr fresh_state) = Inr ?st1"
    by (simp add: example_initialize splitext_def rfind_def extension_to_language_def)
       (simp add: fresh_state_def)
  have m: "LANG_MAPPING ''.md'' = Some MARKDOWN" by (simp add: LANG_MAPPING_def)
  note t = unsupported_language_empty_outline [where ext = "''.md''" and env = example_env
      and code = "''x''" and fname = "''notes.md''" and root = "''/repo''" and ff = ?ff
      and file_doc = ?doc and rest = "[]" and cs = 3000 and co = 0
      and fname' = "''notes.md''" and st = fresh_state and tenv = example_ts_env
      and code' = example_code and ?st1.0 = ?st1]
  from t [THEN conjunct1, THEN mp, OF 1]
  have a: "get_file_summary_for example_env ''.md'' ''x'' ''notes.md'' = Inr \<lparr>methods = [], classes = []\<rparr>" .
  from t [THEN conjunct2, THEN conjunct1, THEN mp, OF 2]
  have b: "\<exists>language. LANG_MAPPING (extension ?ff) = Some language
         \<and> process_file example_env [?doc] (dir_path ?ff) (file_name ?ff) (extension ?ff) 3000 0 =
            (case split_documents example_env language 3000 0 [?doc] of
                 Inl e \<Rightarrow> Inl e
               | Inr split_docs \<Rightarrow>
                   annotate_docs example_env ?doc (dir_path ?ff) (file_name ?ff)
                     \<lparr>methods = [], classes = []\<rparr> split_docs)" .
  from t [THEN conjunct2, THEN conjunct2, THEN mp, OF 3]
  have c: "get_file_summary example_ts_env fresh_state example_code ''notes.md'' =
             (Inr \<lparr>methods = [], classes = []\<rparr>, ?st1)" .
  from b m show ?thesis
    unfolding a c
    by (auto simp: example_env_def one_chunk_splitter_def whole_file_chunk_def annotate_doc_def
        no_context_def str_count_def py_prefix_def)
qed

text \<open>
  C5 (failure isolation). Let the filter queue the files \<open>before @ [bad] @ after\<close>, and
  let loading or processing \<open>bad\<close> raise \<open>e\<close>. Then the run returns normally; its output is
  the concatenation, in queue order, of the chunks of the other files (a file among them
  that fails as well contributes nothing either); and the error is logged with the path of
  \<open>bad\<close>.
\<close>

theorem failure_isolation:
  assumes "filter_files env root = (Inr (before @ [bad] @ after), flog)"
    and "load env (path_join (dir_path bad) (file_name bad)) = Inl e
         \<or> (\<exists>fc. load env (path_join (dir_path bad) (file_name bad)) = Inr fc
                \<and> process_file env fc (dir_path bad) (file_name bad) (extension bad) cs co = Inl e)"
  shows "\<exists>log. crawl_and_split env root cs co =
           (Inr (concat (map (\<lambda>ff. case load env (path_join (dir_path ff) (file_name ff)) of
                                      Inl _ \<Rightarrow> []
                                    | Inr fc \<Rightarrow>
                                        (case process_file env fc (dir_path ff) (file_name ff)
                                                (extension ff) cs co of
                                           Inl _ \<Rightarrow> [] | Inr chunks \<Rightarrow> chunks))
                             (before @ after))), log)
         \<and> LogError (path_join (dir_path bad) (file_name bad)) e \<in> set log"
proof -
  let ?q = "before @ [bad] @ after"
  obtain docs log where r: "crawl_loop env cs co ?q ([], flog) = (docs, log)"
    by (cases "crawl_loop env cs co ?q ([], flog)") auto
  have bad: "process_and_split env bad cs co =
               (None, [Load (path_join (dir_path bad) (file_name bad)),
                       LogError (path_join (dir_path bad) (file_name bad)) e])"
    using assms(2) by (auto simp: process_and_split_def Let_def)
  have "docs = fst (crawl_loop env cs co ?q ([], flog))" using r by simp
  then have docs: "docs = concat (map (\<lambda>ff. case load env (path_join (dir_path ff) (file_name ff)) of
                                      Inl _ \<Rightarrow> []
                                    | Inr fc \<Rightarrow>
                                        (case process_file env fc (dir_path ff) (file_name ff)
                                                (extension ff) cs co of
                                           Inl _ \<Rightarrow> [] | Inr chunks \<Rightarrow> chunks))
                             (before @ after))"
    unfolding crawl_loop_fst process_and_split_chunks using assms(2) by auto
  have "log = snd (crawl_loop env cs co ?q ([], flog))" using r by simp
  then have log: "LogError (path_join (dir_path bad) (file_name bad)) e \<in> set log"
    unfolding crawl_loop_snd by (simp add: bad)
  have "crawl_and_split env root cs co = (Inr docs, log)"
    using r by (simp add: crawl_and_split_def assms(1))
  with docs log show ?thesis by blast
qed

theorem failure_isolation_witness:
  "map (\<lambda>d. metadata d ''source'') (projr (fst (crawl_and_split ten_env ''/repo'' 3000 0))) =
     [Some (MStr ''/repo/f0.py''), Some (MStr ''/repo/f1.py''), Some (MStr ''/repo/f2.py''),
      Some (MStr ''/repo/f4.py''), Some (MStr ''/repo/f5.py''), Some (MStr ''/repo/f6.py''),
      Some (MStr ''/repo/f7.py''), Some (MStr ''/repo/f8.py''), Some (MStr ''/repo/f9.py'')]
   \<and> LogError ''/repo/f3.py'' (UnicodeDecodeError ''/repo/f3.py'')
       \<in> set (snd (crawl_and_split ten_env ''/repo'' 3000 0))"
proof -
  have p: "path_join (dir_path ten_bad) (file_name ten_bad) = ''/repo/f3.py''"
    by (simp add: ten_bad_def path_join_def)
  have l: "load ten_env = ten_load"
    by (simp add: ten_env_def)
  have bad: "load ten_env (path_join (dir_path ten_bad) (file_name ten_bad)) =
               Inl (UnicodeDecodeError ''/repo/f3.py'')"
    unfolding p l by (simp add: ten_load_def)
  from failure_isolation [OF ten_filter, of "UnicodeDecodeError ''/repo/f3.py''" 3000 0] bad
  obtain log where
    r: "crawl_and_split ten_env ''/repo'' 3000 0 =
          (Inr (concat (map (\<lambda>ff. case load ten_env (path_join (dir_path ff) (file_name ff)) of
                                      Inl _ \<Rightarrow> []
                                    | Inr fc \<Rightarrow>
                                        (case process_file ten_env fc (dir_path ff) (file_name ff)
                                                (extension ff) 3000 0 of
                                           Inl _ \<Rightarrow> [] | Inr chunks \<Rightarrow> chunks))
                             (ten_before @ ten_after))), log)"
    and e: "LogError (path_join (dir_path ten_bad) (file_name ten_bad))
              (UnicodeDecodeError ''/repo/f3.py'') \<in> set log"
    by blast
  show ?thesis
    unfolding r using e unfolding p l
    by (simp add: ten_before_def ten_after_def path_join_def ten_load_def ten_process_file)
qed

text \<open>
  C6 (not a git directory). When \<^verbatim>\<open>is_git_dir\<close> is false of the root, the run raises
  ValueError to its caller, and nothing has happened before: no file was handed to the
  loader and nothing was logged, so no file was split or annotated.
\<close>

theorem not_git_aborts:
  assumes "\<not> is_git_dir env root"
  shows "crawl_and_split env root cs co =
           (Inl (ValueError (root @ '' is not a valid git root directory'')), [])"
  using assms by (simp add: crawl_and_split_def filter_files_def)

theorem not_git_aborts_witness:
  "crawl_and_split example_env ''/tmp'' 3000 0 =
     (Inl (ValueError ''/tmp is not a valid git root directory''), [])"
proof -
  have "\<not> is_git_dir example_env ''/tmp''"
    by (simp add: is_git_dir_def example_env_def example_isdir_def path_join_def)
  from not_git_aborts [OF this, of 3000 0] show ?thesis by simp
qed

text \<open>
  C7 (filter). Once the root has passed the git test, a file is queued exactly when the
  walk lists it, its extension (as \<^verbatim>\<open>os.path.splitext\<close> gives it) is a key of
  \<^verbatim>\<open>LANG_MAPPING\<close>, and no component of its directory path starts with a dot. In the
  example, the file under \<^verbatim>\<open>.git/objects\<close> and the \<^verbatim>\<open>.cfg\<close> file are not queued and
  the Python file under \<^verbatim>\<open>src/pkg\<close> is.
\<close>

theorem filter_queue:
  assumes "filter_files env root = (Inr q, log)"
  shows "\<lparr>dir_path = dp, file_name = f, extension = ext\<rparr> \<in> set q \<longleftrightarrow>
           (\<exists>dn fns. (dp, dn, fns) \<in> set (walk env root) \<and> f \<in> set fns)
           \<and> ext = snd (splitext f)
           \<and> LANG_MAPPING ext \<noteq> None
           \<and> \<not> (\<exists>c \<in> set (str_split CHR ''/'' dp). c \<noteq> [] \<and> hd c = CHR ''.'')"
  unfolding filter_files_set [OF assms] contains_hidden_dir_iff [symmetric]
  by auto

theorem filter_queue_witness:
  "\<lparr>dir_path = ''/repo/src/pkg'', file_name = ''main.py'', extension = ''.py''\<rparr>
     \<in> set (projr (fst (filter_files example_env ''/repo'')))
   \<and> \<lparr>dir_path = ''/repo/.git/objects'', file_name = ''pack.py'', extension = ''.py''\<rparr>
     \<notin> set (projr (fst (filter_files example_env ''/repo'')))
   \<and> \<lparr>dir_path = ''/repo'', file_name = ''setup.cfg'', extension = ''.cfg''\<rparr>
     \<notin> set (projr (fst (filter_files example_env ''/repo'')))"
proof -
  have 1: "\<lparr>dir_path = ''/repo/src/pkg'', file_name = ''main.py'', extension = ''.py''\<rparr>
     \<in> set (projr (fst (filter_files example_env ''/repo'')))"
    unfolding example_filter
    using filter_queue [OF example_filter, of "''/repo/src/pkg''" "''main.py''" "''.py''"]
    by simp
  have 2: "\<lparr>dir_path = ''/repo/.git/objects'', file_name = ''pack.py'', extension = ''.py''\<rparr>
     \<notin> set (projr (fst (filter_files example_env ''/repo'')))"
    unfolding example_filter
    using filter_queue [OF example_filter, of "''/repo/.git/objects''" "''pack.py''" "''.py''"]
    by simp
  have 3: "\<lparr>dir_path = ''/repo'', file_name = ''setup.cfg'', extension = ''.cfg''\<rparr>
     \<notin> set (projr (fst (filter_files example_env ''/repo'')))"
    unfolding example_filter
    using filter_queue [OF example_filter, of "''/repo''" "''setup.cfg''" "''.cfg''"]
    by simp
  from 1 2 3 show ?thesis by blast
qed

text \<open>
  C8 (metadata frame). Annotating a chunk leaves every metadata key other than the two
  line numbers as it was, in particular the loader's \<^verbatim>\<open>source\<close> (the file path) and
  the splitter's \<^verbatim>\<open>start_index\<close>; the two line numbers are present in the result.
\<close>

theorem annotation_frame:
  assumes "annotate_doc env file_doc d f fs doc = Inr doc'"
  shows "(\<forall>k. k \<noteq> ''starting_line'' \<and> k \<noteq> ''ending_line'' \<longrightarrow> metadata doc' k = metadata doc k)
       \<and> metadata doc' ''source'' = metadata doc ''source''
       \<and> metadata doc' ''start_index'' = metadata doc ''start_index''
       \<and> (\<exists>s e. metadata doc' ''starting_line'' = Some (MInt s)
                \<and> metadata doc' ''ending_line'' = Some (MInt e))"
  using assms
  by (auto simp: annotate_doc_def Let_def split: option.splits meta_value.splits sum.splits)

theorem annotation_frame_witness:
  "metadata (projr (annotate_doc example_env example_file ''/repo'' ''a.py'' FileSummary_new example_chunk)) ''source''
     = Some (MStr ''/repo/a.py'')
   \<and> metadata (projr (annotate_doc example_env example_file ''/repo'' ''a.py'' FileSummary_new example_chunk)) ''start_index''
     = Some (MInt 2)"
  using annotation_frame [OF example_annotate]
  unfolding example_annotate by (simp add: example_chunk_def)

text \<open>
  C9 (determinism). Within a run of the loop, the result for a chunk is the loop body
  applied to that chunk alone: two positions that hold the same chunk get the same result,
  whatever was annotated before them. Of its environment the loop body consults the
  resolver only, so an environment that differs in anything else gives the same result.
\<close>

theorem annotation_deterministic:
  assumes "annotate_docs env file_doc d f fs docs = Inr out"
    and "i < length docs" and "j < length docs" and "docs ! i = docs ! j"
    and "get_closest_method_class_in_snippet env' = get_closest_method_class_in_snippet env"
  shows "out ! i = out ! j \<and> annotate_doc env' file_doc d f fs (docs ! i) = Inr (out ! i)"
proof -
  from annotate_docs_nth [OF assms(1)] assms(2,3)
  have i: "annotate_doc env file_doc d f fs (docs ! i) = Inr (out ! i)"
    and j: "annotate_doc env file_doc d f fs (docs ! j) = Inr (out ! j)"
    by auto
  from i j assms(4) have "out ! i = out ! j" by simp
  with i annotate_doc_env [OF assms(5)] show ?thesis by simp
qed

theorem annotation_deterministic_witness:
  "annotate_doc ten_env example_file ''/repo'' ''a.py'' FileSummary_new example_chunk =
     Inr \<lparr>page_content = annotation ''/repo'' ''a.py'' 2 3 [] ''b\<newline>c'',
          metadata = [''source'' \<mapsto> MStr ''/repo/a.py'', ''start_index'' \<mapsto> MInt 2,
                      ''starting_line'' \<mapsto> MInt 2, ''ending_line'' \<mapsto> MInt 3]\<rparr>"
proof -
  have a: "annotate_docs example_env example_file ''/repo'' ''a.py'' FileSummary_new
             [example_chunk, example_chunk] =
           Inr [\<lparr>page_content = annotation ''/repo'' ''a.py'' 2 3 [] ''b\<newline>c'',
                 metadata = [''source'' \<mapsto> MStr ''/repo/a.py'', ''start_index'' \<mapsto> MInt 2,
                      ''starting_line'' \<mapsto> MInt 2, ''ending_line'' \<mapsto> MInt 3]\<rparr>,
                \<lparr>page_content = annotation ''/repo'' ''a.py'' 2 3 [] ''b\<newline>c'',
                 metadata = [''source'' \<mapsto> MStr ''/repo/a.py'', ''start_index'' \<mapsto> MInt 2,
                      ''starting_line'' \<mapsto> MInt 2, ''ending_line'' \<mapsto> MInt 3]\<rparr>]"
    by (simp add: example_annotate)
  have e: "get_closest_method_class_in_snippet ten_env =
           get_closest_method_class_in_snippet example_env"
    by (simp add: ten_env_def)
  from annotation_deterministic [OF a _ _ _ e, of 0 1] show ?thesis by simp
qed

text \<open>
  C10 (language lookup). For every file that the filter queues, the extension recorded
  for it is a key of \<^verbatim>\<open>LANG_MAPPING\<close>, so the lookup that \<^verbatim>\<open>process_file\<close> makes
  with it returns a language and does not raise KeyError: once the outline is built,
  \<^verbatim>\<open>process_file\<close> on such a file is the splitter for that language followed by the
  annotation of its chunks.
\<close>

theorem queued_extension_known:
  assumes "filter_files env root = (Inr q, log)" and "ff \<in> set q"
  shows "\<exists>language. LANG_MAPPING (extension ff) = Some language
           \<and> lookup_language (extension ff) = Inr language
           \<and> (\<forall>file_doc rest fs.
                 get_file_summary_for env (extension ff) (page_content file_doc) (file_name ff)
                   = Inr fs \<longrightarrow>
                 process_file env (file_doc # rest) (dir_path ff) (file_name ff) (extension ff)
                   cs co =
                   (case split_documents env language cs co (file_doc # rest) of
                      Inl e \<Rightarrow> Inl e
                    | Inr split_docs \<Rightarrow>
                        annotate_docs env file_doc (dir_path ff) (file_name ff) fs split_docs))"
proof -
  from assms(2) obtain language where l: "LANG_MAPPING (extension ff) = Some language"
    unfolding filter_files_set [OF assms(1)] by auto
  then have k: "lookup_language (extension ff) = Inr language"
    by (simp add: lookup_language_def)
  from l k show ?thesis
    by (auto simp: process_file_def)
qed

theorem queued_extension_known_witness:
  "lookup_language ''.py'' = Inr PYTHON
   \<and> map page_content (projr (process_file example_env
        [\<lparr>page_content = ''x'', metadata = Map.empty\<rparr>] ''/repo/src/pkg'' ''main.py'' ''.py''
        3000 0)) =
       [annotation ''/repo/src/pkg'' ''main.py'' 1 1 [] ''x'']"
proof -
  let ?ff = "\<lparr>dir_path = ''/repo/src/pkg'', file_name = ''main.py'', extension = ''.py''\<rparr>"
  let ?doc = "\<lparr>page_content = ''x'', metadata = Map.empty\<rparr>"
  have m: "?ff \<in> set [?ff,
             \<lparr>dir_path = ''/repo/src/pkg'', file_name = ''notes.md'', extension = ''.md''\<rparr>]"
    by simp
  from queued_extension_known [OF example_filter m, of 3000 0]
  obtain language where
    l: "LANG_MAPPING (extension ?ff) = Some language"
    and k: "lookup_language (extension ?ff) = Inr language"
    and p: "\<forall>file_doc rest fs.
              get_file_summary_for example_env (extension ?ff) (page_content file_doc)
                (file_name ?ff) = Inr fs \<longrightarrow>
              process_file example_env (file_doc # rest) (dir_path ?ff) (file_name ?ff)
                (extension ?ff) 3000 0 =
                (case split_documents example_env language 3000 0 (file_doc # rest) of
                   Inl e \<Rightarrow> Inl e
                 | Inr split_docs \<Rightarrow>
                     annotate_docs example_env file_doc (dir_path ?ff) (file_name ?ff) fs
                       split_docs)"
    by (elim exE conjE)
  from l have g: "language = PYTHON" by (simp add: LANG_MAPPING_def)
  from p [rule_format, of ?doc FileSummary_new "[]"] k g show ?thesis
    by (simp add: get_file_summary_for_def no_parser_def example_env_def
        one_chunk_splitter_def whole_file_chunk_def annotate_doc_def
        no_context_def str_count_def py_prefix_def)
qed

end
